theory Spec2Isabelle
  imports Main
begin

section \<open>Data model\<close>

text \<open>
  The board is a Python \<open>str\<close> of nine one-character cells, \<open>' '\<close>, \<open>'X'\<close> or \<open>'O'\<close>,
  in row-major order. A \<open>str\<close> is modelled as a \<open>string\<close> whose characters stand for
  the code points U+0000 to U+00FF; code points beyond that range are outside the model.
  Python integers are \<open>int\<close>.
\<close>

datatype GameStatus = NOT_FINISHED | X_WIN | O_WIN | DRAW | IMPOSSIBLE

fun GameStatus_str :: "GameStatus \<Rightarrow> string" where
  "GameStatus_str NOT_FINISHED = ''Game not finished''"
| "GameStatus_str X_WIN = ''X wins''"
| "GameStatus_str O_WIN = ''O wins''"
| "GameStatus_str DRAW = ''Draw''"
| "GameStatus_str IMPOSSIBLE = ''Impossible''"

text \<open>
  The three exception classes of the program, and the built-in exceptions its calls can
  raise: \<open>ValueError\<close> from \<open>int()\<close>, \<open>IndexError\<close> from indexing, \<open>EOFError\<close> from
  \<open>input()\<close>.
\<close>

datatype error =
  NonNumericError | CoordinateError | OccupiedCellError | ValueError | IndexError | EOFError

fun message :: "error \<Rightarrow> string" where
  "message OccupiedCellError = ''This cell is occupied! Choose another one!''"
| "message NonNumericError = ''You should enter numbers!''"
| "message CoordinateError = ''Coordinates should be from 1 to 3!''"
| "message _ = []"

section \<open>Built-ins of Python used by the program\<close>

text \<open>\<open>s[i]\<close>: a negative index counts from the end, an index out of range raises.\<close>

definition py_getitem :: "string \<Rightarrow> int \<Rightarrow> error + char" where
  "py_getitem s i =
     (let n = int (length s); j = (if i < 0 then n + i else i)
      in if 0 \<le> j \<and> j < n then Inr (s ! nat j) else Inl IndexError)"

text \<open>\<open>s[:i]\<close> and \<open>s[j:]\<close>: a negative bound counts from the end, and bounds are clipped.\<close>

definition py_slice_to :: "string \<Rightarrow> int \<Rightarrow> string" where
  "py_slice_to s i = (if i < 0 then take (nat (int (length s) + i)) s else take (nat i) s)"

definition py_slice_from :: "string \<Rightarrow> int \<Rightarrow> string" where
  "py_slice_from s j = (if j < 0 then drop (nat (int (length s) + j)) s else drop (nat j) s)"

text \<open>
  \<open>str.isdigit()\<close>: the string is not empty and every character has the Unicode property
  Digit. Below U+0100 these are the ten decimal digits and the superscripts
  U+00B2, U+00B3 and U+00B9.
\<close>

definition decimal_value :: "char \<Rightarrow> nat option" where
  "decimal_value c =
     (let n = (of_char c :: nat) in if 48 \<le> n \<and> n \<le> 57 then Some (n - 48) else None)"

definition is_digit_char :: "char \<Rightarrow> bool" where
  "is_digit_char c =
     (decimal_value c \<noteq> None \<or> (of_char c :: nat) = 178 \<or> (of_char c :: nat) = 179
        \<or> (of_char c :: nat) = 185)"

definition isdigit :: "string \<Rightarrow> bool" where
  "isdigit s = (s \<noteq> [] \<and> list_all is_digit_char s)"

text \<open>
  \<open>int(s)\<close> in base 10: surrounding whitespace is stripped, one sign is allowed, then
  decimal digits, where single underscores may separate digits. Anything else raises
  \<open>ValueError\<close> (the value \<open>None\<close>), as does a literal of more digits than the
  interpreter's limit for the conversion of strings, 4300 by default.
\<close>

definition is_space_char :: "char \<Rightarrow> bool" where
  "is_space_char c =
     (let n = (of_char c :: nat)
      in (9 \<le> n \<and> n \<le> 13) \<or> (28 \<le> n \<and> n \<le> 32) \<or> n = 133 \<or> n = 160)"

definition strip :: "string \<Rightarrow> string" where
  "strip s = rev (dropWhile is_space_char (rev (dropWhile is_space_char s)))"

fun int_digits :: "nat \<Rightarrow> nat \<Rightarrow> string \<Rightarrow> (nat \<times> nat) option" where
  "int_digits acc n [] = None"
| "int_digits acc n [c] =
     (case decimal_value c of None \<Rightarrow> None | Some d \<Rightarrow> Some (acc * 10 + d, Suc n))"
| "int_digits acc n (c # c' # cs) =
     (case decimal_value c of
        None \<Rightarrow> None
      | Some d \<Rightarrow>
          if c' = CHR ''_'' then int_digits (acc * 10 + d) (Suc n) cs
          else int_digits (acc * 10 + d) (Suc n) (c' # cs))"

definition int_max_str_digits :: nat where
  "int_max_str_digits = 4300"

definition py_int :: "string \<Rightarrow> int option" where
  "py_int s =
     (case strip s of
        [] \<Rightarrow> None
      | c # cs \<Rightarrow>
          (let neg = (c = CHR ''-'');
               body = (if c = CHR ''-'' \<or> c = CHR ''+'' then cs else c # cs)
           in case int_digits 0 0 body of
                None \<Rightarrow> None
              | Some (v, n) \<Rightarrow>
                  if int_max_str_digits < n then None
                  else Some (if neg then - int v else int v)))"

section \<open>The board engine\<close>

text \<open>\<open>set([i for i, n in enumerate(state) if n == char])\<close>\<close>

definition get_candidate :: "string \<Rightarrow> char \<Rightarrow> int set" where
  "get_candidate state ch =
     set (map (\<lambda>(i, n). int i) (filter (\<lambda>(i, n). n = ch) (enumerate 0 state)))"

definition get_blank_count :: "string \<Rightarrow> int" where
  "get_blank_count state = int (card (get_candidate state CHR '' ''))"

definition winners :: "int set list" where
  "winners =
     [{0, 1, 2}, {3, 4, 5}, {6, 7, 8}, {0, 3, 6}, {1, 4, 7}, {2, 5, 8}, {0, 4, 8}, {2, 4, 6}]"

definition check_win :: "int set \<Rightarrow> bool" where
  "check_win candidate = list_ex (\<lambda>winner. winner \<subseteq> candidate) winners"

definition evaluate_game_status :: "string \<Rightarrow> GameStatus" where
  "evaluate_game_status state =
     (let blank_count = get_blank_count state;
          x_candidate = get_candidate state CHR ''X'';
          o_candidate = get_candidate state CHR ''O''
      in if \<bar>int (card x_candidate) - int (card o_candidate)\<bar> > 1 then IMPOSSIBLE
         else
           (let x_win = check_win x_candidate;
                o_win = check_win o_candidate
            in if x_win \<and> o_win then IMPOSSIBLE
               else if x_win then X_WIN
               else if o_win then O_WIN
               else if blank_count > 0 then NOT_FINISHED
               else DRAW))"

fun flatten_coordinates :: "int \<times> int \<Rightarrow> int" where
  "flatten_coordinates (row, col) = (row - 1) * 3 + (col - 1)"

definition add_move :: "string \<Rightarrow> int \<times> int \<Rightarrow> string \<Rightarrow> string" where
  "add_move state coords ch =
     (let index = flatten_coordinates coords
      in py_slice_to state index @ ch @ py_slice_from state (index + 1))"

definition legal_range :: "int set" where
  "legal_range = {1..<4}"

definition valid_content :: "char list" where
  "valid_content = [CHR ''X'', CHR ''O'']"

definition validate_move :: "string \<Rightarrow> string \<times> string \<Rightarrow> error + int \<times> int" where
  "validate_move state coords =
     (case coords of (row, col) \<Rightarrow>
        if \<not> isdigit row \<or> \<not> isdigit col then Inl NonNumericError
        else
          (case py_int row of
             None \<Rightarrow> Inl ValueError
           | Some r \<Rightarrow>
               (case py_int col of
                  None \<Rightarrow> Inl ValueError
                | Some c \<Rightarrow>
                    if r \<notin> legal_range \<or> c \<notin> legal_range then Inl CoordinateError
                    else
                      (case py_getitem state (flatten_coordinates (r, c)) of
                         Inl e \<Rightarrow> Inl e
                       | Inr cell \<Rightarrow>
                           if cell \<in> set valid_content then Inl OccupiedCellError
                           else Inr (r, c)))))"

definition get_player :: "string \<Rightarrow> string" where
  "get_player state =
     (let play_count = length (filter (\<lambda>x. x \<in> set ''XO'') state)
      in if play_count mod 2 = 0 then ''X'' else ''O'')"

section \<open>The driver\<close>

text \<open>\<open>' '.join(s)\<close> for a string \<open>s\<close>: its characters, separated by spaces.\<close>

fun join_space :: "string \<Rightarrow> string" where
  "join_space [] = []"
| "join_space [c] = [c]"
| "join_space (c # c' # cs) = c # CHR '' '' # join_space (c' # cs)"

text \<open>The lines that \<open>display_game_state\<close> prints.\<close>

definition display_game_state :: "string \<Rightarrow> string list" where
  "display_game_state state =
     (let row_length = 3;
          separator = ''---------'';
          chunks = map (\<lambda>k. join_space (take row_length (drop (k * row_length) state)))
                     [0..<(length state + row_length - 1) div row_length]
      in [separator] @ map (\<lambda>chunk. ''| '' @ chunk @ '' |'') chunks @ [separator])"

text \<open>
  One turn of the loop of \<open>main\<close>, on the tokens of the line read
  (\<open>input().split()\<close>). The result is the exception that ends the process, or the new
  \<open>game_state\<close> and \<open>game_status\<close> with the lines printed. The three exceptions of the
  program are caught and their message printed; any other one escapes.
\<close>

definition caught :: "error \<Rightarrow> bool" where
  "caught e = (e = NonNumericError \<or> e = CoordinateError \<or> e = OccupiedCellError)"

definition main_body ::
  "string \<times> GameStatus \<Rightarrow> string list \<Rightarrow> error + (string \<times> GameStatus) \<times> string list" where
  "main_body s move =
     (case s of (game_state, game_status) \<Rightarrow>
        (let player = get_player game_state
         in case move of
              m0 # m1 # _ \<Rightarrow>
                (case validate_move game_state (m0, m1) of
                   Inr checked_coords \<Rightarrow>
                     (let new_state = add_move game_state checked_coords player
                      in Inr ((new_state, evaluate_game_status new_state),
                              display_game_state new_state))
                 | Inl e \<Rightarrow>
                     if caught e then Inr ((game_state, game_status), [message e])
                     else Inl e)
            | _ \<Rightarrow> Inl IndexError))"

text \<open>
  The loop, on the lines still to be read; \<open>input()\<close> raises \<open>EOFError\<close> when there is
  none left.
\<close>

fun main_loop :: "string \<times> GameStatus \<Rightarrow> string list list \<Rightarrow> error + string list" where
  "main_loop s [] =
     (if snd s = NOT_FINISHED then Inl EOFError else Inr [GameStatus_str (snd s)])"
| "main_loop s (move # rest) =
     (if snd s = NOT_FINISHED then
        (case main_body s move of
           Inl e \<Rightarrow> Inl e
         | Inr (s', printed) \<Rightarrow>
             (case main_loop s' rest of
                Inl e \<Rightarrow> Inl e
              | Inr out \<Rightarrow> Inr (printed @ out)))
      else Inr [GameStatus_str (snd s)])"

definition main :: "string list list \<Rightarrow> error + string list" where
  "main inputs =
     (let game_state = replicate 9 CHR '' ''
      in case main_loop (game_state, NOT_FINISHED) inputs of
           Inl e \<Rightarrow> Inl e
         | Inr out \<Rightarrow> Inr (display_game_state game_state @ out))"

text \<open>
  The states of the game: the empty board, and from a state every state that a turn of
  the loop reaches when \<open>validate_move\<close> accepts the tokens, with the number of accepted
  moves.
\<close>

inductive after_moves :: "nat \<Rightarrow> string \<Rightarrow> bool" where
  start: "after_moves 0 (replicate 9 CHR '' '')"
| move: "after_moves k state \<Longrightarrow> validate_move state tokens = Inr checked_coords \<Longrightarrow>
         after_moves (Suc k) (add_move state checked_coords (get_player state))"

section \<open>The evaluation as it runs\<close>

text \<open>
  The same evaluation with what can go wrong written out. A run has no result (\<open>None\<close>)
  when a loop does not end, raises (\<open>Inl\<close>) or returns (\<open>Inr\<close>); \<open>then_run\<close> continues
  with the value returned and passes on the two other outcomes.
\<close>

type_synonym 'a run = "(error + 'a) option"

definition then_run :: "'a run \<Rightarrow> ('a \<Rightarrow> 'b run) \<Rightarrow> 'b run" where
  "then_run m f = (case m of None \<Rightarrow> None | Some (Inl e) \<Rightarrow> Some (Inl e) | Some (Inr x) \<Rightarrow> f x)"

text \<open>
  In \<open>evaluate_game_status\<close> one loop runs over the input: the comprehension of
  \<open>get_candidate\<close>. The iteration over \<open>enumerate(state)\<close> is a counter from 0 and, while
  the counter is below the length, a read of the character at the counter; the index is
  appended when the character is the one looked for. The loop of \<open>any\<close> in \<open>check_win\<close>
  runs over the fixed table of the eight lines.
\<close>

partial_function (option) get_candidate_loop ::
  "string \<Rightarrow> char \<Rightarrow> nat \<Rightarrow> int list \<Rightarrow> (error + int list) option" where
  "get_candidate_loop state ch i acc =
     (if i < length state then
        (case py_getitem state (int i) of
           Inl e \<Rightarrow> Some (Inl e)
         | Inr n \<Rightarrow> get_candidate_loop state ch (Suc i) (if n = ch then acc @ [int i] else acc))
      else Some (Inr acc))"

definition get_candidate_run :: "string \<Rightarrow> char \<Rightarrow> int set run" where
  "get_candidate_run state ch =
     then_run (get_candidate_loop state ch 0 []) (\<lambda>indices. Some (Inr (set indices)))"

definition get_blank_count_run :: "string \<Rightarrow> int run" where
  "get_blank_count_run state =
     then_run (get_candidate_run state CHR '' '') (\<lambda>blanks. Some (Inr (int (card blanks))))"

definition evaluate_game_status_run :: "string \<Rightarrow> GameStatus run" where
  "evaluate_game_status_run state =
     then_run (get_blank_count_run state) (\<lambda>blank_count.
     then_run (get_candidate_run state CHR ''X'') (\<lambda>x_candidate.
     then_run (get_candidate_run state CHR ''O'') (\<lambda>o_candidate.
       if \<bar>int (card x_candidate) - int (card o_candidate)\<bar> > 1 then Some (Inr IMPOSSIBLE)
       else
         (let x_win = check_win x_candidate;
              o_win = check_win o_candidate
          in if x_win \<and> o_win then Some (Inr IMPOSSIBLE)
             else if x_win then Some (Inr X_WIN)
             else if o_win then Some (Inr O_WIN)
             else if blank_count > 0 then Some (Inr NOT_FINISHED)
             else Some (Inr DRAW)))))"

section \<open>Notions of the specification\<close>

text \<open>
  A board of the data model has nine cells, each empty, X or O.
\<close>

definition board :: "string \<Rightarrow> bool" where
  "board state = (length state = 9 \<and> list_all (\<lambda>c. c \<in> set '' XO'') state)"

text \<open>
  The eight winning lines as triples of cell indices, and a player holding one of them:
  all three cells of the line hold the player's mark.
\<close>

definition winning_lines :: "(nat \<times> nat \<times> nat) list" where
  "winning_lines =
     [(0, 1, 2), (3, 4, 5), (6, 7, 8), (0, 3, 6), (1, 4, 7), (2, 5, 8), (0, 4, 8), (2, 4, 6)]"

definition holds_line :: "string \<Rightarrow> char \<Rightarrow> bool" where
  "holds_line state p =
     list_ex (\<lambda>(a, b, c). state ! a = p \<and> state ! b = p \<and> state ! c = p) winning_lines"

text \<open>Swapping the two marks of a board, and the two winning statuses.\<close>

definition swap_mark :: "char \<Rightarrow> char" where
  "swap_mark c = (if c = CHR ''X'' then CHR ''O'' else if c = CHR ''O'' then CHR ''X'' else c)"

definition swap_marks :: "string \<Rightarrow> string" where
  "swap_marks state = map swap_mark state"

fun mirror :: "GameStatus \<Rightarrow> GameStatus" where
  "mirror X_WIN = O_WIN"
| "mirror O_WIN = X_WIN"
| "mirror s = s"

text \<open>
  A token that passes the numeric check of \<open>validate_move\<close> and that \<open>int()\<close> converts
  to the value \<open>v\<close>.
\<close>

definition numeric_token :: "string \<Rightarrow> int \<Rightarrow> bool" where
  "numeric_token token v = (isdigit token \<and> py_int token = Some v)"

section \<open>The cells held by a player\<close>

lemma get_candidate_iff:
  "k \<in> get_candidate state ch \<longleftrightarrow> 0 \<le> k \<and> k < int (length state) \<and> state ! nat k = ch"
proof
  assume "k \<in> get_candidate state ch"
  then obtain i where "(i, ch) \<in> set (enumerate 0 state)" and "k = int i"
    by (auto simp: get_candidate_def)
  then show "0 \<le> k \<and> k < int (length state) \<and> state ! nat k = ch"
    by (simp add: in_set_enumerate_eq)
next
  assume a: "0 \<le> k \<and> k < int (length state) \<and> state ! nat k = ch"
  then have "nat k < length state" by auto
  with a have "(nat k, ch) \<in> set (enumerate 0 state)"
    by (simp add: in_set_enumerate_eq)
  then have "int (nat k) \<in> get_candidate state ch"
    unfolding get_candidate_def by force
  with a show "k \<in> get_candidate state ch" by simp
qed

lemma get_candidate_image:
  "get_candidate state ch = int ` {i. i < length state \<and> state ! i = ch}"
proof (rule set_eqI)
  fix k
  show "k \<in> get_candidate state ch \<longleftrightarrow> k \<in> int ` {i. i < length state \<and> state ! i = ch}"
  proof
    assume "k \<in> get_candidate state ch"
    then have "0 \<le> k" "nat k < length state" "state ! nat k = ch"
      by (auto simp: get_candidate_iff)
    then have "nat k \<in> {i. i < length state \<and> state ! i = ch}" by simp
    then have "int (nat k) \<in> int ` {i. i < length state \<and> state ! i = ch}" by (rule imageI)
    with \<open>0 \<le> k\<close> show "k \<in> int ` {i. i < length state \<and> state ! i = ch}" by simp
  next
    assume "k \<in> int ` {i. i < length state \<and> state ! i = ch}"
    then show "k \<in> get_candidate state ch" by (auto simp: get_candidate_iff)
  qed
qed

lemma card_get_candidate: "card (get_candidate state ch) = count_list state ch"
proof -
  have "card (get_candidate state ch) = card {i. i < length state \<and> state ! i = ch}"
    by (simp add: get_candidate_image card_image)
  also have "\<dots> = card {i. i < length state \<and> ch = state ! i}"
    by (rule arg_cong [where f = card]) auto
  also have "\<dots> = count_list state ch"
    by (simp add: count_list_eq_length_filter length_filter_conv_card)
  finally show ?thesis .
qed

lemma blank_count_pos: "0 < get_blank_count state \<longleftrightarrow> CHR '' '' \<in> set state"
proof -
  have "count_list state CHR '' '' \<noteq> 0 \<longleftrightarrow> CHR '' '' \<in> set state"
    by (simp add: count_list_0_iff)
  then show ?thesis
    by (simp add: get_blank_count_def card_get_candidate)
qed

section \<open>Winning lines\<close>

lemma check_win_iff:
  "check_win candidate \<longleftrightarrow>
     {0, 1, 2} \<subseteq> candidate \<or> {3, 4, 5} \<subseteq> candidate \<or> {6, 7, 8} \<subseteq> candidate \<or>
     {0, 3, 6} \<subseteq> candidate \<or> {1, 4, 7} \<subseteq> candidate \<or> {2, 5, 8} \<subseteq> candidate \<or>
     {0, 4, 8} \<subseteq> candidate \<or> {2, 4, 6} \<subseteq> candidate"
  by (simp add: check_win_def winners_def)

lemma check_win_get_candidate:
  assumes "length state = 9"
  shows "check_win (get_candidate state ch) = holds_line state ch"
  using assms by (simp add: check_win_iff holds_line_def winning_lines_def get_candidate_iff)

text \<open>
  Claim C3. For every set of cell indices, \<open>check_win\<close> is true exactly when one of the
  eight winning triples \<open>{0,1,2}\<close>, \<open>{3,4,5}\<close>, \<open>{6,7,8}\<close>, \<open>{0,3,6}\<close>, \<open>{1,4,7}\<close>,
  \<open>{2,5,8}\<close>, \<open>{0,4,8}\<close>, \<open>{2,4,6}\<close> is a subset of it.
\<close>

theorem check_win_winning_triple:
  "check_win candidate \<longleftrightarrow>
     (\<exists>triple \<in> {{0, 1, 2}, {3, 4, 5}, {6, 7, 8}, {0, 3, 6}, {1, 4, 7}, {2, 5, 8},
                   {0, 4, 8}, {2, 4, 6}}. triple \<subseteq> candidate)"
  unfolding check_win_def winners_def list_ex_iff by simp

theorem check_win_winning_triple_witness:
  "check_win {0, 4, 1, 8} \<and> \<not> check_win {0, 1, 3, 5, 8}"
  using check_win_winning_triple [of "{0, 4, 1, 8}"]
    check_win_winning_triple [of "{0, 1, 3, 5, 8}"]
  by simp

section \<open>The status of a board\<close>

text \<open>
  Claim C1. On a board of nine cells, \<open>evaluate_game_status\<close> answers in this order of
  priority: impossible when the numbers of X and of O differ by more than one; impossible
  when both players hold a winning line; X wins when X holds one; O wins when O holds
  one; not finished when a cell is empty; draw otherwise.
\<close>

theorem evaluate_game_status_priority:
  assumes "length state = 9"
  shows "evaluate_game_status state =
     (if \<bar>int (count_list state CHR ''X'') - int (count_list state CHR ''O'')\<bar> > 1
        then IMPOSSIBLE
      else if holds_line state CHR ''X'' \<and> holds_line state CHR ''O'' then IMPOSSIBLE
      else if holds_line state CHR ''X'' then X_WIN
      else if holds_line state CHR ''O'' then O_WIN
      else if CHR '' '' \<in> set state then NOT_FINISHED
      else DRAW)"
  using assms
  by (simp add: evaluate_game_status_def Let_def card_get_candidate check_win_get_candidate
      blank_count_pos)

theorem evaluate_game_status_priority_witness:
  "length ''XXXOO    '' = 9 \<and> evaluate_game_status ''XXXOO    '' = X_WIN
     \<and> length ''XOXXOOOXX'' = 9 \<and> evaluate_game_status ''XOXXOOOXX'' = DRAW"
  using evaluate_game_status_priority [of "''XXXOO    ''"]
    evaluate_game_status_priority [of "''XOXXOOOXX''"]
  by (simp add: holds_line_def winning_lines_def)

lemma then_run_returns: "then_run (Some (Inr x)) f = f x"
  by (simp add: then_run_def)

lemma get_candidate_loop_returns:
  assumes "i \<le> length state"
  shows "get_candidate_loop state ch i acc =
     Some (Inr (acc @ map int (filter (\<lambda>k. state ! k = ch) [i..<length state])))"
  using assms
proof (induction "length state - i" arbitrary: i acc)
  case 0
  then have "i = length state" by simp
  then show ?case by (subst get_candidate_loop.simps) simp
next
  case (Suc d)
  then have less: "i < length state" by simp
  then have read: "py_getitem state (int i) = Inr (state ! i)"
    by (simp add: py_getitem_def)
  have rest: "[i..<length state] = i # [Suc i..<length state]"
    using less by (rule upt_conv_Cons)
  have "d = length state - Suc i" using Suc.hyps(2) by simp
  moreover have "Suc i \<le> length state" using less by simp
  ultimately have IH: "get_candidate_loop state ch (Suc i) acc' =
      Some (Inr (acc' @ map int (filter (\<lambda>k. state ! k = ch) [Suc i..<length state])))"
    for acc'
    by (rule Suc.hyps(1))
  show ?case
    by (subst get_candidate_loop.simps) (simp add: less read rest IH)
qed

lemma get_candidate_run_returns:
  "get_candidate_run state ch = Some (Inr (get_candidate state ch))"
proof -
  have "set (map int (filter (\<lambda>k. state ! k = ch) [0..<length state])) = get_candidate state ch"
    by (auto simp: get_candidate_image)
  then show ?thesis
    by (simp add: get_candidate_run_def get_candidate_loop_returns then_run_returns)
qed

lemma evaluate_game_status_run_eq:
  "evaluate_game_status_run state = Some (Inr (evaluate_game_status state))"
  by (simp add: evaluate_game_status_run_def get_blank_count_run_def get_candidate_run_returns
      then_run_returns evaluate_game_status_def get_blank_count_def Let_def)

text \<open>
  Claim C2. On every board, and on every other string, the evaluation ends, raises
  nothing and returns one of the five statuses: the loop over the cells stops at the
  length of the string and every read in it is within the string.
\<close>

theorem evaluate_game_status_returns:
  "\<exists>status \<in> {NOT_FINISHED, X_WIN, O_WIN, DRAW, IMPOSSIBLE}.
     evaluate_game_status_run state = Some (Inr status)"
  by (cases "evaluate_game_status state") (simp_all add: evaluate_game_status_run_eq)

theorem evaluate_game_status_returns_witness:
  "board ''XXXOOO   '' \<and> evaluate_game_status_run ''XXXOOO   '' = Some (Inr IMPOSSIBLE)
   \<and> board ''XOXXOOOXX'' \<and> evaluate_game_status_run ''XOXXOOOXX'' = Some (Inr DRAW)"
proof -
  obtain s where s: "evaluate_game_status_run ''XXXOOO   '' = Some (Inr s)"
    using evaluate_game_status_returns [of "''XXXOOO   ''"] by blast
  obtain t where t: "evaluate_game_status_run ''XOXXOOOXX'' = Some (Inr t)"
    using evaluate_game_status_returns [of "''XOXXOOOXX''"] by blast
  have "evaluate_game_status ''XXXOOO   '' = IMPOSSIBLE"
    and "evaluate_game_status ''XOXXOOOXX'' = DRAW"
    by code_simp+
  with s t show ?thesis
    by (simp add: evaluate_game_status_run_eq board_def)
qed

lemma evaluate_game_status_scenarios:
  "evaluate_game_status ''         '' = NOT_FINISHED"
  "evaluate_game_status ''XXXOO    '' = X_WIN"
  "evaluate_game_status ''XX OOOX  '' = O_WIN"
  "evaluate_game_status ''XOXXOOOXX'' = DRAW"
  "evaluate_game_status ''XXXOOO   '' = IMPOSSIBLE"
  "evaluate_game_status ''XXX      '' = IMPOSSIBLE"
  by code_simp+

section \<open>Swapping the marks\<close>

lemma swap_mark_eq:
  "swap_mark c = CHR ''X'' \<longleftrightarrow> c = CHR ''O''"
  "swap_mark c = CHR ''O'' \<longleftrightarrow> c = CHR ''X''"
  "swap_mark c = CHR '' '' \<longleftrightarrow> c = CHR '' ''"
  by (simp_all add: swap_mark_def)

lemma get_candidate_swap:
  "get_candidate (swap_marks state) CHR ''X'' = get_candidate state CHR ''O''"
  "get_candidate (swap_marks state) CHR ''O'' = get_candidate state CHR ''X''"
  "get_candidate (swap_marks state) CHR '' '' = get_candidate state CHR '' ''"
  by (rule set_eqI, auto simp: get_candidate_iff swap_marks_def swap_mark_eq)+
text \<open>
  Claim C7. The status of a board with every X and O exchanged is the mirrored status of
  the board: X wins and O wins are exchanged, the three other statuses stay.
\<close>

theorem evaluate_game_status_swap:
  "evaluate_game_status (swap_marks state) = mirror (evaluate_game_status state)"
  by (simp add: evaluate_game_status_def Let_def get_blank_count_def get_candidate_swap
      abs_minus_commute)

theorem evaluate_game_status_swap_witness:
  "swap_marks ''XXXOO    '' = ''OOOXX    ''
   \<and> evaluate_game_status ''XXXOO    '' = X_WIN
   \<and> evaluate_game_status ''OOOXX    '' = O_WIN"
proof -
  have "swap_marks ''XXXOO    '' = ''OOOXX    ''"
    by (simp add: swap_marks_def swap_mark_def)
  moreover have "evaluate_game_status ''XXXOO    '' = X_WIN" by code_simp
  ultimately show ?thesis
    using evaluate_game_status_swap [of "''XXXOO    ''"] by simp
qed

section \<open>Applying a move\<close>

lemma add_move_update:
  assumes "flatten_coordinates coords = int i" and "i < length state"
  shows "add_move state coords [mark] = state[i := mark]"
proof -
  have "py_slice_to state (int i) = take i state"
    by (simp add: py_slice_to_def)
  moreover have "py_slice_from state (int i + 1) = drop (Suc i) state"
    by (simp add: py_slice_from_def nat_add_distrib)
  ultimately show ?thesis
    using assms by (simp add: add_move_def upd_conv_take_nth_drop)
qed

lemma flatten_coordinates_cell:
  assumes "r \<in> legal_range" and "c \<in> legal_range"
  shows "0 \<le> flatten_coordinates (r, c) \<and> flatten_coordinates (r, c) < 9"
  using assms by (auto simp: legal_range_def)

lemma cell_flatten_coordinates:
  assumes "i < 9"
  shows "int (i div 3) + 1 \<in> legal_range \<and> int (i mod 3) + 1 \<in> legal_range
    \<and> flatten_coordinates (int (i div 3) + 1, int (i mod 3) + 1) = int i"
proof -
  have "int (i div 3 * 3 + i mod 3) = int i" by simp
  then have "int (i div 3) * 3 + int (i mod 3) = int i"
    by (simp only: of_nat_add of_nat_mult of_nat_numeral)
  with assms show ?thesis by (auto simp: legal_range_def)
qed

text \<open>
  Claim C6. On a board of nine cells, for every cell index \<open>i\<close> from 0 to 8 and every
  mark, \<open>add_move\<close> at coordinates that flatten to \<open>i\<close> returns the board with cell \<open>i\<close>
  set to the mark: it has nine cells and every other cell is as before.
\<close>

theorem add_move_frame:
  assumes "length state = 9" and "i < 9" and "flatten_coordinates coords = int i"
  shows "add_move state coords [mark] = state[i := mark]
     \<and> length (add_move state coords [mark]) = 9
     \<and> add_move state coords [mark] ! i = mark
     \<and> (\<forall>j < 9. j \<noteq> i \<longrightarrow> add_move state coords [mark] ! j = state ! j)"
  using assms by (simp add: add_move_update)

theorem add_move_frame_witness:
  "length ''XO       '' = 9 \<and> (4::nat) < 9 \<and> flatten_coordinates (2, 2) = int 4
   \<and> add_move ''XO       '' (2, 2) ''X'' = ''XO  X    ''"
  using add_move_frame [of "''XO       ''" 4 "(2, 2)" "CHR ''X''"]
  by simp

section \<open>Validating a move\<close>

lemma py_getitem_cell:
  assumes "0 \<le> i" and "i < int (length s)"
  shows "py_getitem s i = Inr (s ! nat i)"
  using assms by (simp add: py_getitem_def)

lemma validate_move_non_numeric:
  "validate_move state (row, col) = Inl NonNumericError \<longleftrightarrow> \<not> isdigit row \<or> \<not> isdigit col"
  by (auto simp: validate_move_def py_getitem_def Let_def split: option.splits)

lemma validate_move_numeric:
  assumes "numeric_token row r" and "numeric_token col c"
  shows "validate_move state (row, col) =
     (if r \<notin> legal_range \<or> c \<notin> legal_range then Inl CoordinateError
      else if length state \<le> nat (flatten_coordinates (r, c)) then Inl IndexError
      else if state ! nat (flatten_coordinates (r, c)) \<in> {CHR ''X'', CHR ''O''}
        then Inl OccupiedCellError
      else Inr (r, c))"
proof (cases "r \<in> legal_range \<and> c \<in> legal_range")
  case True
  then have "0 \<le> flatten_coordinates (r, c)"
    using flatten_coordinates_cell by blast
  then show ?thesis
    using assms True
    by (auto simp: validate_move_def numeric_token_def py_getitem_def valid_content_def Let_def)
next
  case False
  then show ?thesis
    using assms by (auto simp: validate_move_def numeric_token_def)
qed

lemma validate_move_accepts:
  assumes "validate_move state (row, col) = Inr checked"
  shows "\<exists>r c. checked = (r, c) \<and> numeric_token row r \<and> numeric_token col c
     \<and> r \<in> legal_range \<and> c \<in> legal_range
     \<and> nat (flatten_coordinates (r, c)) < length state
     \<and> state ! nat (flatten_coordinates (r, c)) \<notin> {CHR ''X'', CHR ''O''}"
proof -
  from assms have d: "isdigit row" "isdigit col"
    by (auto simp: validate_move_def split: if_splits)
  with assms obtain r c where rc: "py_int row = Some r" "py_int col = Some c"
    by (auto simp: validate_move_def split: option.splits)
  with d have n: "numeric_token row r" "numeric_token col c"
    by (simp_all add: numeric_token_def)
  from assms show ?thesis
    unfolding validate_move_numeric [OF n]
    using n by (auto split: if_splits)
qed

lemma legal_range_iff: "r \<in> legal_range \<longleftrightarrow> r \<in> {1..3}"
  by (auto simp: legal_range_def)

lemma board_cell:
  assumes "board state" and "i < 9"
  shows "state ! i \<in> {CHR ''X'', CHR ''O''} \<longleftrightarrow> state ! i \<noteq> CHR '' ''"
proof -
  from assms have "state ! i \<in> set state" by (simp add: board_def)
  with assms(1) have "state ! i \<in> set '' XO''" by (simp add: board_def list_all_iff)
  then show ?thesis by auto
qed

lemma numeric_token_examples:
  "numeric_token ''1'' 1" "numeric_token ''2'' 2" "numeric_token ''3'' 3"
  "numeric_token ''7'' 7" "numeric_token ''0'' 0"
  by (simp_all add: numeric_token_def) code_simp+

text \<open>
  Tokens of decimal digits, up to the length limit of \<open>int()\<close>, are numeric tokens.
\<close>

lemma decimal_not_underscore: "decimal_value c \<noteq> None \<Longrightarrow> c \<noteq> CHR ''_''"
  by (auto simp: decimal_value_def)

lemma int_digits_decimal:
  assumes "s \<noteq> []" and "list_all (\<lambda>c. decimal_value c \<noteq> None) s"
  shows "\<exists>v. int_digits acc n s = Some (v, n + length s)"
  using assms
proof (induction acc n s rule: int_digits.induct)
  case (1 acc n)
  then show ?case by simp
next
  case (2 acc n c)
  then show ?case by auto
next
  case (3 acc n c c' cs)
  from "3.prems"(2) obtain d where d: "decimal_value c = Some d" by auto
  from "3.prems"(2) have c': "c' \<noteq> CHR ''_''" by (simp add: decimal_not_underscore)
  have "\<exists>v. int_digits (acc * 10 + d) (Suc n) (c' # cs) = Some (v, Suc n + length (c' # cs))"
    using "3.IH"(2) [OF d c'] "3.prems"(2) by simp
  then show ?case using d c' by simp
qed

lemma decimal_not_space: "decimal_value c \<noteq> None \<Longrightarrow> \<not> is_space_char c"
  by (auto simp: decimal_value_def is_space_char_def Let_def)

lemma dropWhile_hd:
  assumes "xs \<noteq> []" and "\<not> P (hd xs)"
  shows "dropWhile P xs = xs"
  using assms by (cases xs) simp_all

lemma strip_decimal:
  assumes "list_all (\<lambda>c. decimal_value c \<noteq> None) s"
  shows "strip s = s"
proof (cases s rule: rev_cases)
  case Nil
  then show ?thesis by (simp add: strip_def)
next
  case (snoc ys y)
  with assms have "\<not> is_space_char y" and "\<not> is_space_char (hd s)"
    by (cases ys; simp add: decimal_not_space)+
  then have "dropWhile is_space_char s = s"
    using snoc by (intro dropWhile_hd) simp_all
  moreover have "dropWhile is_space_char (rev s) = rev s"
    using snoc \<open>\<not> is_space_char y\<close> by simp
  ultimately show ?thesis by (simp add: strip_def)
qed

lemma decimal_not_sign: "decimal_value c \<noteq> None \<Longrightarrow> c \<noteq> CHR ''-'' \<and> c \<noteq> CHR ''+''"
  by (auto simp: decimal_value_def)

lemma numeric_token_decimal:
  assumes "s \<noteq> []" and "list_all (\<lambda>c. decimal_value c \<noteq> None) s"
    and "length s \<le> int_max_str_digits"
  shows "\<exists>v. numeric_token s v"
proof -
  obtain c cs where s: "s = c # cs" using assms(1) by (cases s) auto
  with assms(2) have sign: "c \<noteq> CHR ''-''" "c \<noteq> CHR ''+''"
    by (simp_all add: decimal_not_sign)
  obtain v where v: "int_digits 0 0 s = Some (v, length s)"
    using int_digits_decimal [OF assms(1,2), of 0 0] by auto
  have "py_int s = Some (int v)"
    using v sign assms(3) unfolding py_int_def strip_decimal [OF assms(2)]
    by (simp add: s Let_def)
  moreover have "isdigit s"
    using assms(1,2) by (auto simp: isdigit_def is_digit_char_def list_all_iff)
  ultimately show ?thesis by (auto simp: numeric_token_def)
qed

text \<open>
  A token can pass \<open>str.isdigit\<close> and still not convert: on the superscript two,
  U+00B2, \<open>int()\<close> raises \<open>ValueError\<close>, which \<open>validate_move\<close> lets through and the
  driver does not catch.
\<close>

lemma validate_move_superscript_digit:
  "isdigit [CHR 0xB2]"
  "validate_move ''         '' ([CHR 0xB2], ''1'') = Inl ValueError"
  "main_body (''         '', NOT_FINISHED) [[CHR 0xB2], ''1''] = Inl ValueError"
  by code_simp+

text \<open>
  Claim C4, as stated, fails: the token \<open>-1\<close> parses as an integer, and \<open>validate_move\<close>
  rejects it as non-numeric, since its numeric check is \<open>str.isdigit\<close>.
\<close>

theorem validate_move_signed_token_counterexample:
  "\<not> (validate_move ''         '' (''-1'', ''2'') = Inl NonNumericError
        \<longleftrightarrow> py_int ''-1'' = None \<or> py_int ''2'' = None)"
  by code_simp

text \<open>
  Claim C4, amended. \<open>validate_move\<close> checks in a fixed order and the first failure wins.
  It fails with \<open>NonNumericError\<close> exactly when a token is not a non-empty string of
  digits (\<open>str.isdigit\<close>). On a board, for tokens that pass this check and that \<open>int()\<close>
  converts to \<open>r\<close> and \<open>c\<close>: it fails with \<open>CoordinateError\<close> exactly when \<open>r\<close> or \<open>c\<close> is
  outside 1 to 3; otherwise with \<open>OccupiedCellError\<close> exactly when the cell
  \<open>(r - 1) * 3 + (c - 1)\<close> is not empty; otherwise it returns \<open>(r, c)\<close>.
\<close>

theorem validate_move_order:
  "(validate_move state (row, col) = Inl NonNumericError \<longleftrightarrow> \<not> isdigit row \<or> \<not> isdigit col)
   \<and> (board state \<and> numeric_token row r \<and> numeric_token col c \<longrightarrow>
        (validate_move state (row, col) = Inl CoordinateError
           \<longleftrightarrow> r \<notin> {1..3} \<or> c \<notin> {1..3})
      \<and> (validate_move state (row, col) = Inl OccupiedCellError
           \<longleftrightarrow> r \<in> {1..3} \<and> c \<in> {1..3} \<and> state ! nat ((r - 1) * 3 + (c - 1)) \<noteq> CHR '' '')
      \<and> (validate_move state (row, col) = Inr (r, c)
           \<longleftrightarrow> r \<in> {1..3} \<and> c \<in> {1..3} \<and> state ! nat ((r - 1) * 3 + (c - 1)) = CHR '' ''))"
proof (intro conjI impI)
  show "validate_move state (row, col) = Inl NonNumericError \<longleftrightarrow> \<not> isdigit row \<or> \<not> isdigit col"
    by (rule validate_move_non_numeric)
next
  assume a: "board state \<and> numeric_token row r \<and> numeric_token col c"
  then have n: "numeric_token row r" "numeric_token col c" by simp_all
  note v = validate_move_numeric [OF n, of state]
  have cell: "nat (flatten_coordinates (r, c)) < 9
      \<and> (state ! nat (flatten_coordinates (r, c)) \<in> {CHR ''X'', CHR ''O''}
           \<longleftrightarrow> state ! nat (flatten_coordinates (r, c)) \<noteq> CHR '' '')"
    if "r \<in> legal_range" "c \<in> legal_range"
    using flatten_coordinates_cell [OF that] a board_cell [of state "nat (flatten_coordinates (r, c))"]
    by auto
  have len: "length state = 9" using a by (simp add: board_def)
  show "validate_move state (row, col) = Inl CoordinateError \<longleftrightarrow> r \<notin> {1..3} \<or> c \<notin> {1..3}"
    unfolding v by (simp add: legal_range_iff)
  show "validate_move state (row, col) = Inl OccupiedCellError
      \<longleftrightarrow> r \<in> {1..3} \<and> c \<in> {1..3} \<and> state ! nat ((r - 1) * 3 + (c - 1)) \<noteq> CHR '' ''"
    unfolding v using cell len by (auto simp: legal_range_iff)
  show "validate_move state (row, col) = Inr (r, c)
      \<longleftrightarrow> r \<in> {1..3} \<and> c \<in> {1..3} \<and> state ! nat ((r - 1) * 3 + (c - 1)) = CHR '' ''"
    unfolding v using cell len by (auto simp: legal_range_iff)
qed

theorem validate_move_order_witness:
  "board ''XO       '' \<and> numeric_token ''1'' 1 \<and> numeric_token ''2'' 2 \<and> numeric_token ''7'' 7
   \<and> validate_move ''XO       '' (''1'', ''x'') = Inl NonNumericError
   \<and> validate_move ''XO       '' (''7'', ''2'') = Inl CoordinateError
   \<and> validate_move ''XO       '' (''1'', ''2'') = Inl OccupiedCellError
   \<and> validate_move ''XO       '' (''2'', ''2'') = Inr (2, 2)"
proof -
  have b: "board ''XO       ''" by (simp add: board_def)
  have x: "\<not> isdigit ''x''" by code_simp
  note n = numeric_token_examples
  show ?thesis
    using b x n
      validate_move_order [of "''XO       ''" "''1''" "''x''" 1 1]
      validate_move_order [of "''XO       ''" "''7''" "''2''" 7 2]
      validate_move_order [of "''XO       ''" "''1''" "''2''" 1 2]
      validate_move_order [of "''XO       ''" "''2''" "''2''" 2 2]
    by simp
qed

text \<open>
  Claim C9. On a board with no empty cell, \<open>validate_move\<close> fails with
  \<open>OccupiedCellError\<close> for every pair of numeric tokens in the range 1 to 3; a token
  that fails the numeric check gives \<open>NonNumericError\<close> and numeric tokens out of range
  give \<open>CoordinateError\<close>, before the cell is looked at.
\<close>

theorem validate_move_full_board:
  assumes "board state" and "CHR '' '' \<notin> set state"
  shows "(numeric_token row r \<and> numeric_token col c \<and> r \<in> {1..3} \<and> c \<in> {1..3} \<longrightarrow>
            validate_move state (row, col) = Inl OccupiedCellError)
     \<and> (\<not> isdigit row \<or> \<not> isdigit col \<longrightarrow>
            validate_move state (row, col) = Inl NonNumericError)
     \<and> (numeric_token row r \<and> numeric_token col c \<and> (r \<notin> {1..3} \<or> c \<notin> {1..3}) \<longrightarrow>
            validate_move state (row, col) = Inl CoordinateError)"
proof (intro conjI impI)
  assume a: "numeric_token row r \<and> numeric_token col c \<and> r \<in> {1..3} \<and> c \<in> {1..3}"
  then have range: "r \<in> legal_range" "c \<in> legal_range"
    by (simp_all add: legal_range_iff)
  define i where "i = nat (flatten_coordinates (r, c))"
  have i: "i < 9"
    using flatten_coordinates_cell [OF range] unfolding i_def by linarith
  with assms have "state ! i \<in> set state" by (simp add: board_def)
  with assms(2) have "state ! i \<noteq> CHR '' ''" by auto
  with board_cell [OF assms(1) i] have "state ! i \<in> {CHR ''X'', CHR ''O''}" by simp
  moreover have "length state = 9" using assms(1) by (simp add: board_def)
  moreover from a have n: "numeric_token row r" "numeric_token col c" by simp_all
  ultimately show "validate_move state (row, col) = Inl OccupiedCellError"
    using range i unfolding validate_move_numeric [OF n] i_def by simp
next
  assume "\<not> isdigit row \<or> \<not> isdigit col"
  then show "validate_move state (row, col) = Inl NonNumericError"
    by (simp only: validate_move_non_numeric)
next
  assume a: "numeric_token row r \<and> numeric_token col c \<and> (r \<notin> {1..3} \<or> c \<notin> {1..3})"
  then have n: "numeric_token row r" "numeric_token col c" by simp_all
  from a show "validate_move state (row, col) = Inl CoordinateError"
    unfolding validate_move_numeric [OF n] by (auto simp: legal_range_iff)
qed

theorem validate_move_full_board_witness:
  "board ''XOXXOOOXX'' \<and> CHR '' '' \<notin> set ''XOXXOOOXX''
   \<and> numeric_token ''3'' 3 \<and> numeric_token ''1'' 1 \<and> numeric_token ''0'' 0
   \<and> validate_move ''XOXXOOOXX'' (''3'', ''1'') = Inl OccupiedCellError
   \<and> validate_move ''XOXXOOOXX'' (''3'', ''one'') = Inl NonNumericError
   \<and> validate_move ''XOXXOOOXX'' (''0'', ''1'') = Inl CoordinateError"
proof -
  have b: "board ''XOXXOOOXX''" "CHR '' '' \<notin> set ''XOXXOOOXX''"
    by (simp_all add: board_def)
  have x: "\<not> isdigit ''one''" by code_simp
  show ?thesis
    using b x numeric_token_examples
      validate_move_full_board [OF b, of "''3''" 3 "''1''" 1]
      validate_move_full_board [OF b, of "''3''" 3 "''one''" 1]
      validate_move_full_board [OF b, of "''0''" 0 "''1''" 1]
    by simp
qed

text \<open>
  Claim C10. A cell is occupied when it holds X or O, not when it differs from the
  space: for numeric tokens in range whose cell holds any other character,
  \<open>validate_move\<close> succeeds.
\<close>

theorem validate_move_occupied_means_mark:
  assumes "numeric_token row r" and "numeric_token col c"
    and "r \<in> {1..3}" and "c \<in> {1..3}"
    and "nat ((r - 1) * 3 + (c - 1)) < length state"
    and "state ! nat ((r - 1) * 3 + (c - 1)) \<notin> {CHR ''X'', CHR ''O''}"
  shows "validate_move state (row, col) = Inr (r, c)"
  using assms(3-) unfolding validate_move_numeric [OF assms(1,2)]
  by (simp add: legal_range_iff)

theorem validate_move_occupied_means_mark_witness:
  "validate_move ''X?O      '' (''1'', ''2'') = Inr (1, 2)"
proof -
  have "(1::int) \<in> {1..3}" and "(2::int) \<in> {1..3}"
    and "nat ((1 - 1) * 3 + (2 - 1)) < length ''X?O      ''"
    and "''X?O      '' ! nat ((1 - 1) * 3 + (2 - 1)) \<notin> {CHR ''X'', CHR ''O''}"
    by simp_all
  with numeric_token_examples(1,2) show ?thesis
    by (rule validate_move_occupied_means_mark)
qed

section \<open>The player to move\<close>

lemma get_player_mark: "get_player state = ''X'' \<or> get_player state = ''O''"
  by (simp add: get_player_def Let_def)

lemma filter_update_count:
  assumes "i < length xs" and "\<not> P (xs ! i)" and "P m"
  shows "length (filter P (xs[i := m])) = Suc (length (filter P xs))"
proof -
  have "xs = take i xs @ xs ! i # drop (Suc i) xs"
    using assms(1) by (rule id_take_nth_drop)
  then have "length (filter P xs) = length (filter P (take i xs)) + length (filter P (drop (Suc i) xs))"
    using assms(2) by (metis filter.simps(2) filter_append length_append)
  moreover have "xs[i := m] = take i xs @ m # drop (Suc i) xs"
    using assms(1) by (rule upd_conv_take_nth_drop)
  ultimately show ?thesis
    using assms(3) by simp
qed

lemma after_moves_invariant:
  assumes "after_moves k state"
  shows "length state = 9 \<and> length (filter (\<lambda>x. x \<in> set ''XO'') state) = k"
  using assms
proof (induction rule: after_moves.induct)
  case start
  show ?case by (simp add: eval_nat_numeral)
next
  case (move k state tokens checked_coords)
  obtain row col where t: "tokens = (row, col)" by (cases tokens)
  with move.hyps(2) obtain r c where rc: "checked_coords = (r, c)"
    and cell: "nat (flatten_coordinates (r, c)) < length state"
      "state ! nat (flatten_coordinates (r, c)) \<notin> {CHR ''X'', CHR ''O''}"
    and range: "r \<in> legal_range" "c \<in> legal_range"
    using validate_move_accepts by blast
  define i where "i = nat (flatten_coordinates (r, c))"
  have fl: "flatten_coordinates checked_coords = int i"
    using flatten_coordinates_cell [OF range] rc by (simp add: i_def)
  obtain m where m: "get_player state = [m]" and mXO: "m \<in> set ''XO''"
    using get_player_mark [of state] by auto
  have upd: "add_move state checked_coords (get_player state) = state[i := m]"
    using add_move_update [OF fl] cell(1) m by (simp add: i_def)
  have "length (filter (\<lambda>x. x \<in> set ''XO'') (state[i := m]))
      = Suc (length (filter (\<lambda>x. x \<in> set ''XO'') state))"
    using cell mXO by (intro filter_update_count) (auto simp: i_def)
  with move.IH upd show ?case by simp
qed

lemma get_player_parity:
  "get_player state =
     (if even (length (filter (\<lambda>x. x \<in> set ''XO'') state)) then ''X'' else ''O'')"
  by (simp add: get_player_def Let_def even_iff_mod_2_eq_zero)

lemma board_filled_cells:
  assumes "board state"
  shows "filter (\<lambda>x. x \<in> set ''XO'') state = filter (\<lambda>c. c \<noteq> CHR '' '') state"
  using assms by (intro filter_cong) (auto simp: board_def list_all_iff)

text \<open>
  Claim C5. On a board, \<open>get_player\<close> is X when the number of non-empty cells is even and
  O when it is odd; and after \<open>k\<close> accepted moves from the empty board the player to move
  is X when \<open>k\<close> is even and O when it is odd.
\<close>

theorem get_player_alternates:
  "(board state \<longrightarrow>
      get_player state =
        (if even (length (filter (\<lambda>c. c \<noteq> CHR '' '') state)) then ''X'' else ''O''))
   \<and> (after_moves k state' \<longrightarrow> get_player state' = (if even k then ''X'' else ''O''))"
proof (intro conjI impI)
  assume "board state"
  then show "get_player state =
      (if even (length (filter (\<lambda>c. c \<noteq> CHR '' '') state)) then ''X'' else ''O'')"
    by (simp only: get_player_parity board_filled_cells)
next
  assume "after_moves k state'"
  then have "length (filter (\<lambda>x. x \<in> set ''XO'') state') = k"
    by (simp only: after_moves_invariant)
  then show "get_player state' = (if even k then ''X'' else ''O'')"
    by (simp only: get_player_parity)
qed

lemma after_one_move: "after_moves 1 ''    X    ''"
proof -
  have "after_moves (Suc 0)
      (add_move (replicate 9 CHR '' '') (2, 2) (get_player (replicate 9 CHR '' '')))"
    by (rule after_moves.move [where tokens = "(''2'', ''2'')"], rule after_moves.start)
      code_simp
  moreover have "add_move (replicate 9 CHR '' '') (2, 2) (get_player (replicate 9 CHR '' ''))
      = ''    X    ''"
    by code_simp
  ultimately show ?thesis by simp
qed

theorem get_player_alternates_witness:
  "board ''XO  X    '' \<and> get_player ''XO  X    '' = ''O''
   \<and> after_moves 1 ''    X    '' \<and> get_player ''    X    '' = ''O''"
  using get_player_alternates [of "''XO  X    ''" 1 "''    X    ''"] after_one_move
  by (simp add: board_def)

section \<open>A rejected move in the driver\<close>

text \<open>
  Claim C8. \<open>validate_move\<close> returns coordinates or an error and no board: when it fails
  with one of the three errors of the program, the turn of the driver ends with the same
  board and status, having printed the message of the error; when it succeeds, the move
  is applied to the board that was validated.
\<close>

theorem main_body_rejected_move:
  "(validate_move state (row, col) = Inl e \<and> caught e \<longrightarrow>
      main_body (state, status) (row # col # rest) = Inr ((state, status), [message e]))
   \<and> (validate_move state (row, col) = Inr checked \<longrightarrow>
      (\<exists>status' printed. main_body (state, status) (row # col # rest)
         = Inr ((add_move state checked (get_player state), status'), printed)))"
  by (simp add: main_body_def Let_def)

theorem main_body_rejected_move_witness:
  "validate_move ''X        '' (''1'', ''1'') = Inl OccupiedCellError \<and> caught OccupiedCellError
   \<and> main_body (''X        '', NOT_FINISHED) [''1'', ''1'']
       = Inr ((''X        '', NOT_FINISHED), [''This cell is occupied! Choose another one!''])
   \<and> validate_move ''X        '' (''a'', ''1'') = Inl NonNumericError \<and> caught NonNumericError
   \<and> main_body (''X        '', NOT_FINISHED) [''a'', ''1'']
       = Inr ((''X        '', NOT_FINISHED), [''You should enter numbers!''])
   \<and> validate_move ''X        '' (''1'', ''4'') = Inl CoordinateError \<and> caught CoordinateError
   \<and> main_body (''X        '', NOT_FINISHED) [''1'', ''4'']
       = Inr ((''X        '', NOT_FINISHED), [''Coordinates should be from 1 to 3!''])"
proof -
  have v: "validate_move ''X        '' (''1'', ''1'') = Inl OccupiedCellError"
    "validate_move ''X        '' (''a'', ''1'') = Inl NonNumericError"
    "validate_move ''X        '' (''1'', ''4'') = Inl CoordinateError"
    by code_simp+
  show ?thesis
    using v
      main_body_rejected_move [of "''X        ''" "''1''" "''1''" OccupiedCellError NOT_FINISHED "[]"]
      main_body_rejected_move [of "''X        ''" "''a''" "''1''" NonNumericError NOT_FINISHED "[]"]
      main_body_rejected_move [of "''X        ''" "''1''" "''4''" CoordinateError NOT_FINISHED "[]"]
    by (simp add: caught_def)
qed

end
